theory Spec2Isabelle
  imports Complex_Main "HOL-Library.Word" "HOL-Library.Char_ord" "HOL-Library.List_Lexorder"
begin

section \<open>Values shared by both providers\<close>

text \<open>
  The two providers (\<^verbatim>\<open>postgres/db_ops.go\<close>, \<^verbatim>\<open>mongo/db_opts.go\<close>) are thin adapters
  around a database client. The model keeps the control flow of every method as it is
  written and makes the three things the methods depend on explicit:
  \<^item> the packages of the repository they call (\<^verbatim>\<open>record\<close>, \<^verbatim>\<open>idgen\<close>) and the random
    source, as an interface value whose methods thread their own state;
  \<^item> the contents of the table or collection, as the list of stored records;
  \<^item> what the outside world decides for one call (whether a round trip is answered, how
    long it takes, whether a row can be scanned or decoded), as an environment value.
\<close>

type_synonym uint64 = "64 word"

text \<open>
  A \<^verbatim>\<open>float32\<close> is only drawn, stored and handed on; no arithmetic is done on it. The
  finite values are rationals.
\<close>
type_synonym float32 = rat

text \<open>\<^verbatim>\<open>time.Duration\<close>: a number of nanoseconds (an \<^verbatim>\<open>int64\<close>; no sum here comes near its bounds).\<close>
type_synonym duration = int

definition Second :: duration where
  "Second = 1000000000"

datatype error =
    ErrNoRows
      \<comment> \<open>\<^verbatim>\<open>pgx.ErrNoRows\<close> / \<^verbatim>\<open>mongo.ErrNoDocuments\<close>: the query selected nothing\<close>
  | DeadlineExceeded
      \<comment> \<open>\<^verbatim>\<open>context.DeadlineExceeded\<close>\<close>
  | DuplicateKey
      \<comment> \<open>the server refuses a second document with the same \<^verbatim>\<open>_id\<close>\<close>
  | Backend string
      \<comment> \<open>any other error of the driver, the network or the server\<close>
  | Codec string
      \<comment> \<open>an encoding or decoding error (\<^verbatim>\<open>encoding/json\<close>, \<^verbatim>\<open>bson\<close>, \<^verbatim>\<open>Scan\<close>)\<close>
  | Msg string
      \<comment> \<open>\<^verbatim>\<open>errors.New\<close> with the text given\<close>
  | ErrSyntax string
      \<comment> \<open>\<^verbatim>\<open>strconv.ErrSyntax\<close> for the text given\<close>
  | ErrRange string
      \<comment> \<open>\<^verbatim>\<open>strconv.ErrRange\<close> for the text given\<close>
  | InvalidWriteConcern error
      \<comment> \<open>\<^verbatim>\<open>fmt.Errorf("invalid writeConcern value: %v", err)\<close>\<close>
  | NoExistingData "error option" uint64
      \<comment> \<open>\<^verbatim>\<open>fmt.Errorf("no existing data? error = %v, count = %d", err, count)\<close>\<close>
  | NoExistingDoc error
      \<comment> \<open>\<^verbatim>\<open>fmt.Errorf("no existing data? %v", err)\<close>\<close>

text \<open>
  Modelled from the spec: \<^verbatim>\<open>record.Person\<close> is not among the sources. The spec gives it an
  unsigned 64-bit identifier, numeric and textual fields (age, balance, name) and an
  optional padding. The queries of both providers name the fields \<^verbatim>\<open>id\<close> / \<^verbatim>\<open>_id\<close>,
  \<^verbatim>\<open>age\<close> and \<^verbatim>\<open>balance\<close>.
\<close>
record person =
  ID :: uint64
  age :: int
  balance :: float32
  name :: string
  padding :: string

text \<open>
  The interface values a method receives: \<^verbatim>\<open>idgen.Generator\<close> (\<^verbatim>\<open>GetNew\<close>,
  \<^verbatim>\<open>GetExisting\<close>), the random source \<^verbatim>\<open>*rand.Rand\<close> (\<^verbatim>\<open>Float32\<close>) and
  \<^verbatim>\<open>Person.Randomise\<close>. None of their bodies is among the sources, so each is a
  parameter: a function on the state of the generator (\<open>'g\<close>) or of the random source
  (\<open>'r\<close>) that returns its result and the new state.
\<close>
record ('g, 'r) deps =
  Randomise :: "person \<Rightarrow> 'r \<Rightarrow> person \<times> 'r"
  GetNew :: "'g \<Rightarrow> uint64 \<times> 'g"
  GetExisting :: "'g \<Rightarrow> uint64 \<times> 'g"
  Float32 :: "'r \<Rightarrow> float32 \<times> 'r"

datatype log_line =
    LogErr error            \<comment> \<open>\<^verbatim>\<open>log.Println(err)\<close>\<close>
  | LogIdErr uint64 error   \<comment> \<open>\<^verbatim>\<open>log.Println(recordID, err)\<close>\<close>
  | LogNote string          \<comment> \<open>\<^verbatim>\<open>log.Println("...")\<close>\<close>

text \<open>
  Everything a method can read or change: the record template \<^verbatim>\<open>*data\<close>, the state of
  the generator and of the random source, the rows of the table (documents of the
  collection) the provider points at, and the process log.
\<close>
record ('g, 'r) world =
  data :: person
  idgen :: 'g
  rnd :: 'r
  store :: "person list"
  logged :: "log_line list"

text \<open>A method either returns its boolean or panics.\<close>
datatype outcome = Returned bool | Panicked error

section \<open>The outside world of one call\<close>

text \<open>
  One round trip to the server: the time until the answer arrives and, when the server or
  the network fails, the error.
\<close>
record reply =
  took :: duration
  failure :: "error option"

text \<open>
  What the outside world decides during one method call:
  \<^item> \<open>marshal_err\<close>: the result of \<^verbatim>\<open>json.Marshal(data)\<close>;
  \<^item> \<open>answer\<close>: the round trip of the command or query itself (\<^verbatim>\<open>Exec\<close>, \<^verbatim>\<open>Query\<close>,
    \<^verbatim>\<open>QueryRow\<close>, \<^verbatim>\<open>InsertOne\<close>, \<^verbatim>\<open>UpdateOne\<close>, \<^verbatim>\<open>FindOne\<close>, \<^verbatim>\<open>Find\<close>);
  \<^item> \<open>next_row i\<close>: fetching row \<open>i\<close> of a result set (\<^verbatim>\<open>rows.Next()\<close>,
    \<^verbatim>\<open>cursor.Next(ctx)\<close>);
  \<^item> \<open>scan_err i\<close>: the result of \<^verbatim>\<open>Scan\<close> on row \<open>i\<close>;
  \<^item> \<open>decode_err i\<close>: the result of \<^verbatim>\<open>json.Unmarshal\<close> / \<^verbatim>\<open>Decode\<close> on row \<open>i\<close>.
\<close>
record env =
  marshal_err :: "error option"
  answer :: reply
  next_row :: "nat \<Rightarrow> reply"
  scan_err :: "nat \<Rightarrow> error option"
  decode_err :: "nat \<Rightarrow> error option"

text \<open>
  \<^verbatim>\<open>context.Background()\<close> never expires; \<^verbatim>\<open>context.WithTimeout(context.Background(), d)\<close>
  expires \<open>d\<close> after the method started.
\<close>
datatype ctx = Background | WithTimeout duration

fun Deadline :: "ctx \<Rightarrow> duration option" where
  "Deadline Background = None"
| "Deadline (WithTimeout d) = Some d"

text \<open>
  A driver call under a context, started \<open>elapsed\<close> after the method did: when the context
  expires before the answer is there the driver returns \<^verbatim>\<open>context.DeadlineExceeded\<close>,
  otherwise what the server answered. The methods learn nothing but the error from a call
  that fails or expires; the model takes the stored data to be as it was then.
\<close>
definition round_trip :: "ctx \<Rightarrow> duration \<Rightarrow> reply \<Rightarrow> error option" where
  "round_trip ctx elapsed r =
     (case Deadline ctx of
        None \<Rightarrow> failure r
      | Some d \<Rightarrow> if d \<le> elapsed + took r then Some DeadlineExceeded else failure r)"

section \<open>What the queries select\<close>

text \<open>
  \<^verbatim>\<open>WHERE data->'id' = $1\<close> and \<^verbatim>\<open>bson.M{"_id": recordID}\<close>.
\<close>
definition with_id :: "uint64 \<Rightarrow> person list \<Rightarrow> person list" where
  "with_id i rows = filter (\<lambda>r. ID r = i) rows"

text \<open>
  \<^verbatim>\<open>WHERE (data->'age') > '45' AND (data->'age') < '75'\<close> and
  \<^verbatim>\<open>bson.M{"age": bson.M{"$gt": 45, "$lt": 75}}\<close>.
\<close>
definition age_range :: "person list \<Rightarrow> person list" where
  "age_range rows = filter (\<lambda>r. 45 < age r \<and> age r < 75) rows"

text \<open>
  \<^verbatim>\<open>ORDER BY data->'id' DESC LIMIT 1\<close> and \<^verbatim>\<open>FindOne\<close> with the sort \<^verbatim>\<open>{_id: -1}\<close>: a row with
  the largest identifier, if there is a row at all.
\<close>
fun top_id :: "person \<Rightarrow> person list \<Rightarrow> person" where
  "top_id best [] = best"
| "top_id best (r # rs) = top_id (if ID best < ID r then r else best) rs"

definition most_recent :: "person list \<Rightarrow> person option" where
  "most_recent rows = (case rows of [] \<Rightarrow> None | r # rs \<Rightarrow> Some (top_id r rs))"

text \<open>
  \<^verbatim>\<open>UPDATE ... SET data = jsonb_set(data, '{balance}', $1::jsonb, false) WHERE data->'id' = $2\<close>:
  every row with the identifier gets the new balance.
\<close>
definition set_balance_all :: "uint64 \<Rightarrow> float32 \<Rightarrow> person list \<Rightarrow> person list" where
  "set_balance_all i v rows = map (\<lambda>r. if ID r = i then r\<lparr>balance := v\<rparr> else r) rows"

text \<open>
  \<^verbatim>\<open>UpdateOne(ctx, bson.M{"_id": recordID}, bson.M{"$set": bson.M{"balance": v}})\<close>: the first
  document with the identifier gets the new balance.
\<close>
fun set_balance_one :: "uint64 \<Rightarrow> float32 \<Rightarrow> person list \<Rightarrow> person list" where
  "set_balance_one i v [] = []"
| "set_balance_one i v (r # rs) =
     (if ID r = i then r\<lparr>balance := v\<rparr> # rs else r # set_balance_one i v rs)"

section \<open>The PostgreSQL provider\<close>

text \<open>Every call of the PostgreSQL provider passes \<^verbatim>\<open>context.Background()\<close>.\<close>
definition pg_ctx :: ctx where
  "pg_ctx = Background"

definition say :: "log_line \<Rightarrow> ('g, 'r) world \<Rightarrow> ('g, 'r) world" where
  "say l w = w\<lparr>logged := logged w @ [l]\<rparr>"

definition pg_InsertRecord ::
  "('g, 'r) deps \<Rightarrow> env \<Rightarrow> ('g, 'r) world \<Rightarrow> outcome \<times> ('g, 'r) world" where
  "pg_InsertRecord d e w =
     (let (randomised, r') = Randomise d (data w) (rnd w);
          (new_id, g') = GetNew d (idgen w);
          row = randomised\<lparr>ID := new_id\<rparr>;
          w1 = w\<lparr>data := row, idgen := g', rnd := r'\<rparr>
      in case marshal_err e of
           Some err \<Rightarrow> (Panicked err, w1)
         | None \<Rightarrow>
            (case round_trip pg_ctx 0 (answer e) of
               Some err \<Rightarrow> (Returned False, say (LogErr err) w1)
             | None \<Rightarrow> (Returned True, w1\<lparr>store := store w1 @ [row]\<rparr>)))"

definition pg_UpdateRecord ::
  "('g, 'r) deps \<Rightarrow> env \<Rightarrow> ('g, 'r) world \<Rightarrow> outcome \<times> ('g, 'r) world" where
  "pg_UpdateRecord d e w =
     (let (recordID, g') = GetExisting d (idgen w);
          (v, r') = Float32 d (rnd w);
          w1 = w\<lparr>idgen := g', rnd := r'\<rparr>
      in case round_trip pg_ctx 0 (answer e) of
           Some err \<Rightarrow> (Returned False, say (LogIdErr recordID err) w1)
         | None \<Rightarrow> (Returned True, w1\<lparr>store := set_balance_all recordID v (store w1)\<rparr>))"

definition pg_ReadRecord ::
  "('g, 'r) deps \<Rightarrow> env \<Rightarrow> ('g, 'r) world \<Rightarrow> outcome \<times> ('g, 'r) world" where
  "pg_ReadRecord d e w =
     (let (recordID, g') = GetExisting d (idgen w);
          w1 = w\<lparr>idgen := g'\<rparr>;
          scanned =
            (case round_trip pg_ctx 0 (answer e) of
               Some err \<Rightarrow> Some err
             | None \<Rightarrow>
                (case with_id recordID (store w1) of
                   [] \<Rightarrow> Some ErrNoRows
                 | r # rs \<Rightarrow> scan_err e 0))
      in case scanned of
           Some err \<Rightarrow> (Returned False, say (LogIdErr recordID err) w1)
         | None \<Rightarrow>
            (case decode_err e 0 of
               Some err \<Rightarrow> (Returned False, say (LogIdErr recordID err) w1)
             | None \<Rightarrow> (Returned True, w1)))"

text \<open>
  The loop \<^verbatim>\<open>for rows.Next() { Scan; Unmarshal }\<close> over the rows the query selected, from row
  \<open>i\<close> on. The result is the value returned, the number of rows deserialised and the line
  logged, if any. When \<^verbatim>\<open>rows.Next()\<close> cannot fetch a row it returns false and keeps the
  error for \<^verbatim>\<open>rows.Err()\<close>; the method never reads \<^verbatim>\<open>rows.Err()\<close> and goes on to
  \<^verbatim>\<open>return true\<close>. The last call of \<^verbatim>\<open>rows.Next()\<close>, which finds no further row,
  returns false whether it failed or not.
\<close>
fun pg_rows_loop :: "env \<Rightarrow> nat \<Rightarrow> person list \<Rightarrow> bool \<times> nat \<times> log_line list" where
  "pg_rows_loop e i [] = (True, i, [])"
| "pg_rows_loop e i (r # rs) =
     (case round_trip pg_ctx 0 (next_row e i) of
        Some err \<Rightarrow> (True, i, [])
      | None \<Rightarrow>
         (case scan_err e i of
            Some err \<Rightarrow> (False, i, [LogErr err])
          | None \<Rightarrow>
             (case decode_err e i of
                Some err \<Rightarrow> (False, i, [LogErr err])
              | None \<Rightarrow> pg_rows_loop e (Suc i) rs)))"

text \<open>
  \<^verbatim>\<open>ReadRange\<close> with the number of rows it deserialised, and the method itself.
\<close>
definition pg_ReadRange_rows ::
  "env \<Rightarrow> ('g, 'r) world \<Rightarrow> bool \<times> nat \<times> log_line list" where
  "pg_ReadRange_rows e w =
     (case round_trip pg_ctx 0 (answer e) of
        Some err \<Rightarrow> (False, 0, [LogErr err])
      | None \<Rightarrow> pg_rows_loop e 0 (age_range (store w)))"

definition pg_ReadRange ::
  "('g, 'r) deps \<Rightarrow> env \<Rightarrow> ('g, 'r) world \<Rightarrow> outcome \<times> ('g, 'r) world" where
  "pg_ReadRange d e w =
     (case pg_ReadRange_rows e w of
        (ok, n, ls) \<Rightarrow> (Returned ok, w\<lparr>logged := logged w @ ls\<rparr>))"

definition pg_ReadMostRecentRecord ::
  "('g, 'r) deps \<Rightarrow> env \<Rightarrow> ('g, 'r) world \<Rightarrow> outcome \<times> ('g, 'r) world" where
  "pg_ReadMostRecentRecord d e w =
     (let scanned =
            (case round_trip pg_ctx 0 (answer e) of
               Some err \<Rightarrow> Some err
             | None \<Rightarrow>
                (case most_recent (store w) of
                   None \<Rightarrow> Some ErrNoRows
                 | Some r \<Rightarrow> scan_err e 0))
      in case scanned of
           Some err \<Rightarrow> (Returned False, say (LogErr err) w)
         | None \<Rightarrow>
            (case decode_err e 0 of
               Some err \<Rightarrow> (Returned False, say (LogErr err) w)
             | None \<Rightarrow> (Returned True, w)))"

text \<open>
  \<^verbatim>\<open>GetMaxID\<close> returns the pair \<^verbatim>\<open>(uint64, error)\<close>; \<^verbatim>\<open>nil\<close> is \<open>None\<close>. \<^verbatim>\<open>count\<close> starts
  at 0 and a \<^verbatim>\<open>Scan\<close> that fails leaves it there.
\<close>
definition pg_GetMaxID :: "env \<Rightarrow> person list \<Rightarrow> uint64 \<times> error option" where
  "pg_GetMaxID e rows =
     (let (count, err) =
            (case round_trip pg_ctx 0 (answer e) of
               Some er \<Rightarrow> (0, Some er)
             | None \<Rightarrow>
                (case most_recent rows of
                   None \<Rightarrow> (0, Some ErrNoRows)
                 | Some r \<Rightarrow>
                    (case scan_err e 0 of
                       Some er \<Rightarrow> (0, Some er)
                     | None \<Rightarrow> (ID r, None))))
      in if err \<noteq> None \<or> count = 0
         then (0, Some (NoExistingData err count))
         else (count, None))"

section \<open>The MongoDB provider\<close>

text \<open>
  Every method of the MongoDB provider starts with
  \<^verbatim>\<open>ctx, cancel := context.WithTimeout(context.Background(), 10*time.Second)\<close> and passes
  \<^verbatim>\<open>ctx\<close> to each driver call it makes.
\<close>
definition mongo_ctx :: ctx where
  "mongo_ctx = WithTimeout (10 * Second)"

text \<open>
  \<^verbatim>\<open>InsertOne\<close> encodes the document itself, so an encoding error comes back as its error,
  like a failure of the server. The server keeps \<^verbatim>\<open>_id\<close> unique.
\<close>
definition mongo_InsertRecord ::
  "('g, 'r) deps \<Rightarrow> env \<Rightarrow> ('g, 'r) world \<Rightarrow> outcome \<times> ('g, 'r) world" where
  "mongo_InsertRecord d e w =
     (let (randomised, r') = Randomise d (data w) (rnd w);
          (new_id, g') = GetNew d (idgen w);
          doc = randomised\<lparr>ID := new_id\<rparr>;
          w1 = w\<lparr>data := doc, idgen := g', rnd := r'\<rparr>;
          err = (case round_trip mongo_ctx 0 (answer e) of
                   Some er \<Rightarrow> Some er
                 | None \<Rightarrow> if with_id new_id (store w1) = [] then None else Some DuplicateKey)
      in case err of
           Some er \<Rightarrow> (Returned False, say (LogErr er) w1)
         | None \<Rightarrow> (Returned True, w1\<lparr>store := store w1 @ [doc]\<rparr>))"

definition mongo_UpdateRecord ::
  "('g, 'r) deps \<Rightarrow> env \<Rightarrow> ('g, 'r) world \<Rightarrow> outcome \<times> ('g, 'r) world" where
  "mongo_UpdateRecord d e w =
     (let (recordID, g') = GetExisting d (idgen w);
          (v, r') = Float32 d (rnd w);
          w1 = w\<lparr>idgen := g', rnd := r'\<rparr>
      in case round_trip mongo_ctx 0 (answer e) of
           Some err \<Rightarrow> (Returned False, say (LogIdErr recordID err) w1)
         | None \<Rightarrow> (Returned True, w1\<lparr>store := set_balance_one recordID v (store w1)\<rparr>))"

definition mongo_ReadRecord ::
  "('g, 'r) deps \<Rightarrow> env \<Rightarrow> ('g, 'r) world \<Rightarrow> outcome \<times> ('g, 'r) world" where
  "mongo_ReadRecord d e w =
     (let (recordID, g') = GetExisting d (idgen w);
          w1 = w\<lparr>idgen := g'\<rparr>;
          err = (case round_trip mongo_ctx 0 (answer e) of
                   Some er \<Rightarrow> Some er
                 | None \<Rightarrow>
                    (case with_id recordID (store w1) of
                       [] \<Rightarrow> Some ErrNoRows
                     | r # rs \<Rightarrow> decode_err e 0))
      in case err of
           Some er \<Rightarrow> (Returned False, say (LogIdErr recordID er) w1)
         | None \<Rightarrow> (Returned True, w1))"

text \<open>
  The loop \<^verbatim>\<open>for cursor.Next(ctx) { Decode }\<close> followed by the check of \<^verbatim>\<open>cursor.Err()\<close>,
  over the documents the query selected, from document \<open>i\<close> on, \<open>elapsed\<close> after the
  method started. When \<^verbatim>\<open>cursor.Next\<close> cannot fetch a document, or the context has
  expired, it returns false and the error is what \<^verbatim>\<open>cursor.Err()\<close> returns after the loop.
  That holds for the last call of \<^verbatim>\<open>cursor.Next\<close> too, the one that finds no further
  document.
\<close>
fun mongo_cursor_loop ::
  "env \<Rightarrow> duration \<Rightarrow> nat \<Rightarrow> person list \<Rightarrow> bool \<times> nat \<times> log_line list" where
  "mongo_cursor_loop e elapsed i [] =
     (case round_trip mongo_ctx elapsed (next_row e i) of
        Some err \<Rightarrow> (False, i, [LogErr err])
      | None \<Rightarrow> (True, i, []))"
| "mongo_cursor_loop e elapsed i (r # rs) =
     (case round_trip mongo_ctx elapsed (next_row e i) of
        Some err \<Rightarrow> (False, i, [LogErr err])
      | None \<Rightarrow>
         (case decode_err e i of
            Some err \<Rightarrow> (False, i, [LogErr err])
          | None \<Rightarrow> mongo_cursor_loop e (elapsed + took (next_row e i)) (Suc i) rs))"

definition mongo_ReadRange_rows ::
  "env \<Rightarrow> ('g, 'r) world \<Rightarrow> bool \<times> nat \<times> log_line list" where
  "mongo_ReadRange_rows e w =
     (case round_trip mongo_ctx 0 (answer e) of
        Some err \<Rightarrow> (False, 0, [LogErr err])
      | None \<Rightarrow> mongo_cursor_loop e (took (answer e)) 0 (age_range (store w)))"

definition mongo_ReadRange ::
  "('g, 'r) deps \<Rightarrow> env \<Rightarrow> ('g, 'r) world \<Rightarrow> outcome \<times> ('g, 'r) world" where
  "mongo_ReadRange d e w =
     (case mongo_ReadRange_rows e w of
        (ok, n, ls) \<Rightarrow> (Returned ok, w\<lparr>logged := logged w @ ls\<rparr>))"

definition mongo_ReadMostRecentRecord ::
  "('g, 'r) deps \<Rightarrow> env \<Rightarrow> ('g, 'r) world \<Rightarrow> outcome \<times> ('g, 'r) world" where
  "mongo_ReadMostRecentRecord d e w =
     (let err = (case round_trip mongo_ctx 0 (answer e) of
                   Some er \<Rightarrow> Some er
                 | None \<Rightarrow>
                    (case most_recent (store w) of
                       None \<Rightarrow> Some ErrNoRows
                     | Some r \<Rightarrow> decode_err e 0))
      in case err of
           Some er \<Rightarrow> (Returned False, say (LogErr er) w)
         | None \<Rightarrow> (Returned True, w))"

definition mongo_GetMaxID :: "env \<Rightarrow> person list \<Rightarrow> uint64 \<times> error option" where
  "mongo_GetMaxID e docs =
     (case round_trip mongo_ctx 0 (answer e) of
        Some er \<Rightarrow> (0, Some (NoExistingDoc er))
      | None \<Rightarrow>
         (case most_recent docs of
            None \<Rightarrow> (0, Some (NoExistingDoc ErrNoRows))
          | Some r \<Rightarrow>
             (case decode_err e 0 of
                Some er \<Rightarrow> (0, Some (NoExistingDoc er))
              | None \<Rightarrow> (ID r, None))))"

section \<open>The uniform contract\<close>

text \<open>
  The driver calls the five operations through one interface, whichever provider was
  built at startup.
\<close>
datatype provider = Postgres | Mongo

datatype operation = Insert | Update | Read | Range | MostRecent

fun run ::
  "provider \<Rightarrow> operation \<Rightarrow> ('g, 'r) deps \<Rightarrow> env \<Rightarrow> ('g, 'r) world \<Rightarrow> outcome \<times> ('g, 'r) world"
  where
  "run Postgres Insert = pg_InsertRecord"
| "run Postgres Update = pg_UpdateRecord"
| "run Postgres Read = pg_ReadRecord"
| "run Postgres Range = pg_ReadRange"
| "run Postgres MostRecent = pg_ReadMostRecentRecord"
| "run Mongo Insert = mongo_InsertRecord"
| "run Mongo Update = mongo_UpdateRecord"
| "run Mongo Read = mongo_ReadRecord"
| "run Mongo Range = mongo_ReadRange"
| "run Mongo MostRecent = mongo_ReadMostRecentRecord"

text \<open>The context a provider passes to its driver calls.\<close>
fun ctx_of :: "provider \<Rightarrow> ctx" where
  "ctx_of Postgres = pg_ctx"
| "ctx_of Mongo = mongo_ctx"

section \<open>Building a provider\<close>

text \<open>
  \<^verbatim>\<open>*url.URL\<close>, with the fields the factories read. The query string is kept as the
  key/value pairs it is made of, in the order they are written (\<^verbatim>\<open>url.Values\<close>).
\<close>
type_synonym url_values = "(string \<times> string) list"

record url =
  Scheme :: string
  Host :: string
  Path :: string
  RawQuery :: url_values

text \<open>\<^verbatim>\<open>Values.Get\<close>: the first value of the key, or the empty string.\<close>
definition Get :: "url_values \<Rightarrow> string \<Rightarrow> string" where
  "Get q k = (case map_of q k of None \<Rightarrow> [] | Some v \<Rightarrow> v)"

text \<open>\<^verbatim>\<open>Values.Del\<close>: every value of the key goes.\<close>
definition Del :: "url_values \<Rightarrow> string \<Rightarrow> url_values" where
  "Del q k = filter (\<lambda>kv. fst kv \<noteq> k) q"

text \<open>\<^verbatim>\<open>Values.Encode\<close>: the pairs sorted by key, the values of one key in their order.\<close>
definition Encode :: "url_values \<Rightarrow> url_values" where
  "Encode q = sort_key fst q"

definition TrimPrefix :: "string \<Rightarrow> string \<Rightarrow> string" where
  "TrimPrefix s pre = (if take (length pre) s = pre then drop (length pre) s else s)"

text \<open>
  \<^verbatim>\<open>strconv.Atoi\<close>: an optional sign, then one or more decimal digits, the value within
  the 64-bit \<^verbatim>\<open>int\<close>.
\<close>
definition digit :: "char \<Rightarrow> int option" where
  "digit c = (let n = (of_char c :: int) in if 48 \<le> n \<and> n \<le> 57 then Some (n - 48) else None)"

fun digits :: "int \<Rightarrow> string \<Rightarrow> int option" where
  "digits acc [] = Some acc"
| "digits acc (c # cs) =
     (case digit c of None \<Rightarrow> None | Some v \<Rightarrow> digits (10 * acc + v) cs)"

definition Atoi :: "string \<Rightarrow> error + int" where
  "Atoi s =
     (let neg = (take 1 s = ''-'');
          body = (if take 1 s = ''+'' \<or> take 1 s = ''-'' then drop 1 s else s)
      in if body = [] then Inl (ErrSyntax s)
         else case digits 0 body of
                None \<Rightarrow> Inl (ErrSyntax s)
              | Some n \<Rightarrow>
                 (let v = (if neg then - n else n)
                  in if v < - (2 ^ 63) \<or> 2 ^ 63 - 1 < v then Inl (ErrRange s) else Inr v))"

subsection \<open>PostgreSQL\<close>

text \<open>
  The three calls into \<^verbatim>\<open>pgxpool\<close>, as an interface: \<^verbatim>\<open>ParseConfig(endpoint.String())\<close>,
  \<^verbatim>\<open>ConnectConfig\<close> and \<^verbatim>\<open>pool.Ping\<close>.
\<close>
record ('cfg, 'pool) pgxpool =
  ParseConfig :: "url \<Rightarrow> error + 'cfg"
  ConnectConfig :: "'cfg \<Rightarrow> error + 'pool"
  Ping :: "'pool \<Rightarrow> error option"

record 'pool pg_FuncProvider =
  DB :: 'pool
  TableName :: string

text \<open>
  The factory returns the pair \<^verbatim>\<open>(*FuncProvider, error)\<close>; a \<^verbatim>\<open>nil\<close> component is
  \<open>None\<close>. The call \<^verbatim>\<open>runtime.GOMAXPROCS(2)\<close> before the last return changes a setting
  of the Go runtime and none of the values here.
\<close>
definition pg_NewProvider ::
  "('cfg, 'pool) pgxpool \<Rightarrow> url \<Rightarrow> string \<Rightarrow> 'pool pg_FuncProvider option \<times> error option"
  where
  "pg_NewProvider drv endpoint tableName =
     (case ParseConfig drv endpoint of
        Inl err \<Rightarrow> (None, Some err)
      | Inr config \<Rightarrow>
         (case ConnectConfig drv config of
            Inl err \<Rightarrow> (None, Some err)
          | Inr pool \<Rightarrow>
             (case Ping drv pool of
                Some err \<Rightarrow> (None, Some err)
              | None \<Rightarrow> (Some \<lparr>DB = pool, TableName = tableName\<rparr>, None))))"

subsection \<open>MongoDB\<close>

datatype read_concern = RC_Majority | RC_Local | RC_Linearizable

datatype w_level = WMajority | W int

record write_concern =
  level :: w_level
  journal :: bool

record client_options =
  uri :: url
  WriteConcern :: write_concern
  ReadConcern :: read_concern

text \<open>The calls into the driver: \<^verbatim>\<open>mongo.Connect\<close> and \<^verbatim>\<open>client.Ping\<close>.\<close>
record 'client mongo_driver =
  Connect :: "client_options \<Rightarrow> error + 'client"
  PingClient :: "'client \<Rightarrow> error option"

text \<open>\<^verbatim>\<open>client.Database(dbName).Collection(tableName)\<close>.\<close>
record 'client collection =
  of_client :: 'client
  database :: string
  collname :: string

record 'client mongo_FuncProvider =
  Client :: 'client
  Collection :: "'client collection"

text \<open>
  The four \<^verbatim>\<open>switch\<close> statements. Each is on the value \<^verbatim>\<open>strings.ToLower\<close> returns for
  the parameter, and that value is the argument here.
\<close>
definition read_concern_of :: "string \<Rightarrow> error + read_concern" where
  "read_concern_of v =
     (if v = [] \<or> v = ''majority'' then Inr RC_Majority
      else if v = ''local'' then Inr RC_Local
      else if v = ''linearizable'' then Inr RC_Linearizable
      else Inl (Msg ''unknown readConcern value''))"

definition write_concern_of :: "string \<Rightarrow> error + write_concern" where
  "write_concern_of w =
     (if w = [] \<or> w = ''majority'' then Inr \<lparr>level = WMajority, journal = False\<rparr>
      else case Atoi w of
             Inl err \<Rightarrow> Inl (InvalidWriteConcern err)
           | Inr n \<Rightarrow> Inr \<lparr>level = W n, journal = False\<rparr>)"

definition journal_of :: "string \<Rightarrow> write_concern \<Rightarrow> error + write_concern" where
  "journal_of v wc =
     (if v = [] \<or> v = ''false'' \<or> v = ''0'' then Inr wc
      else if v = ''true'' \<or> v = ''1'' then Inr (wc\<lparr>journal := True\<rparr>)
      else Inl (Msg ''unknown journal value''))"

definition fsync_of :: "string \<Rightarrow> error + log_line list" where
  "fsync_of v =
     (if v = [] \<or> v = ''false'' \<or> v = ''0'' then Inr []
      else if v = ''true'' \<or> v = ''1''
      then Inr [LogNote ''Note: fsync=true requested, but ignored (unsupported in mongo-go-driver)'']
      else Inl (Msg ''unknown fsync value''))"

text \<open>
  The first part of \<^verbatim>\<open>NewProvider\<close>, up to the client options it hands to
  \<^verbatim>\<open>mongo.Connect\<close>: the database name, the options and what was logged, or the error
  returned before any connection is made. \<^verbatim>\<open>strings.ToLower\<close> belongs to the standard
  library and maps the upper-case letters of all of Unicode; it is the parameter
  \<open>ToLower\<close>, so that what is proved holds for the library's function whatever it does
  to a given text.
\<close>
definition mongo_options ::
  "(string \<Rightarrow> string) \<Rightarrow> url \<Rightarrow> error + (string \<times> client_options \<times> log_line list)"
  where
  "mongo_options ToLower endpoint =
     (let dbName = TrimPrefix (Path endpoint) ''/''
      in if dbName = [] then Inl (Msg ''database name cannot be empty'')
      else
        let q = RawQuery endpoint
        in case read_concern_of (ToLower (Get q ''readConcern'')) of
             Inl err \<Rightarrow> Inl err
           | Inr rc \<Rightarrow>
              (let q = Del q ''readConcern''
               in case write_concern_of (ToLower (Get q ''writeConcern'')) of
                    Inl err \<Rightarrow> Inl err
                  | Inr wc \<Rightarrow>
                     (let q = Del q ''writeConcern''
                      in case journal_of (ToLower (Get q ''journal'')) wc of
                           Inl err \<Rightarrow> Inl err
                         | Inr wc \<Rightarrow>
                            (let q = Del q ''journal''
                             in case fsync_of (ToLower (Get q ''fsync'')) of
                                  Inl err \<Rightarrow> Inl err
                                | Inr note \<Rightarrow>
                                   (let q = Del q ''fsync''
                                    in Inr (dbName,
                                            \<lparr>uri = endpoint\<lparr>RawQuery := Encode q\<rparr>,
                                             WriteConcern = wc,
                                             ReadConcern = rc\<rparr>,
                                            note))))))"

text \<open>
  \<^verbatim>\<open>NewProvider\<close>: the provider, the error, and the lines logged on the way.
\<close>
definition mongo_NewProvider ::
  "(string \<Rightarrow> string) \<Rightarrow> 'client mongo_driver \<Rightarrow> url \<Rightarrow> string
     \<Rightarrow> 'client mongo_FuncProvider option \<times> error option \<times> log_line list" where
  "mongo_NewProvider ToLower drv endpoint tableName =
     (case mongo_options ToLower endpoint of
        Inl err \<Rightarrow> (None, Some err, [])
      | Inr (dbName, clientOpts, note) \<Rightarrow>
         (case Connect drv clientOpts of
            Inl err \<Rightarrow> (None, Some err, note)
          | Inr client \<Rightarrow>
             (case PingClient drv client of
                Some err \<Rightarrow> (None, Some err, note)
              | None \<Rightarrow>
                 (Some \<lparr>Client = client,
                        Collection = \<lparr>of_client = client, database = dbName,
                                      collname = tableName\<rparr>\<rparr>,
                  None, note))))"

section \<open>Sample inputs\<close>

text \<open>
  Concrete values to run the methods on. The sample generator issues consecutive
  identifiers and samples the newest one; the sample random source counts its draws.
\<close>
definition demo_deps :: "(uint64, nat) deps" where
  "demo_deps =
     \<lparr>Randomise = (\<lambda>p r. (p\<lparr>age := 30 + int r, balance := 1 / 4, name := ''ann''\<rparr>, Suc r)),
      GetNew = (\<lambda>g. (g + 1, g + 1)),
      GetExisting = (\<lambda>g. (g, g)),
      Float32 = (\<lambda>r. (3 / 4, Suc r))\<rparr>"

definition someone :: "uint64 \<Rightarrow> int \<Rightarrow> person" where
  "someone i a = \<lparr>ID = i, age = a, balance = 0, name = ''p'', padding = []\<rparr>"

definition on_time :: reply where
  "on_time = \<lparr>took = 1000000, failure = None\<rparr>"

definition calm :: env where
  "calm =
     \<lparr>marshal_err = None, answer = on_time, next_row = (\<lambda>i. on_time),
      scan_err = (\<lambda>i. None), decode_err = (\<lambda>i. None)\<rparr>"

definition demo_world :: "person list \<Rightarrow> (uint64, nat) world" where
  "demo_world rows = \<lparr>data = someone 0 0, idgen = 2, rnd = 0, store = rows, logged = []\<rparr>"

definition demo_url :: "url_values \<Rightarrow> url" where
  "demo_url q = \<lparr>Scheme = ''mongodb'', Host = ''10.1.0.42'', Path = ''/testdb'', RawQuery = q\<rparr>"

text \<open>
  A sample for the parameter \<open>ToLower\<close>: the ASCII letters A to Z are lower-cased and
  every other byte is kept, which is what \<^verbatim>\<open>strings.ToLower\<close> returns for a text of ASCII
  characters. It is applied to such texts only.
\<close>
definition ascii_lower_byte :: "char \<Rightarrow> char" where
  "ascii_lower_byte c =
     (let n = (of_char c :: int) in if 65 \<le> n \<and> n \<le> 90 then char_of (n + 32) else c)"

definition ascii_lower :: "string \<Rightarrow> string" where
  "ascii_lower s = map ascii_lower_byte s"

definition demo_pgxpool :: "(url, nat) pgxpool" where
  "demo_pgxpool =
     \<lparr>ParseConfig = (\<lambda>u. Inr u), ConnectConfig = (\<lambda>c. Inr 7), Ping = (\<lambda>p. None)\<rparr>"

definition demo_mongo :: "client_options mongo_driver" where
  "demo_mongo = \<lparr>Connect = (\<lambda>opts. Inr opts), PingClient = (\<lambda>c. None)\<rparr>"

section \<open>What a caller sees of a call\<close>


section \<open>Facts about the queries and the contexts\<close>

lemma ID_top_id: "ID (top_id b rs) = fold max (map ID rs) (ID b)"
  by (induction rs arbitrary: b) (auto simp: max_def)

lemma most_recent_None: "most_recent rows = None \<longleftrightarrow> rows = []"
  by (simp add: most_recent_def split: list.splits)

lemma most_recent_Nil: "most_recent [] = None"
  by (simp add: most_recent_def)

lemma most_recent_Max: "most_recent rows = Some r \<Longrightarrow> ID r = Max (ID ` set rows)"
proof -
  assume h: "most_recent rows = Some r"
  then obtain x xs where rows: "rows = x # xs" and r: "r = top_id x xs"
    by (auto simp: most_recent_def split: list.splits)
  have "Max (set (map ID (x # xs))) = fold max (map ID xs) (ID x)"
    using Max.set_eq_fold [of "ID x" "map ID xs"] by simp
  then show ?thesis
    using rows r by (simp add: ID_top_id)
qed

lemma pg_round_trip: "round_trip pg_ctx t r = failure r"
  by (simp add: round_trip_def pg_ctx_def)

lemma mongo_round_trip:
  "round_trip mongo_ctx t r =
     (if 10 * Second \<le> t + took r then Some DeadlineExceeded else failure r)"
  by (simp add: round_trip_def mongo_ctx_def)

section \<open>GetMaxID\<close>

text \<open>
  Claim C5, as the code has it. Whenever \<^verbatim>\<open>GetMaxID\<close> returns no error, its value is the
  largest identifier stored. The PostgreSQL method returns no error exactly when the
  query is answered, the table is not empty, the value can be scanned and the largest
  identifier is not 0. The MongoDB method returns no error exactly when the query is
  answered within its 10 seconds, the collection is not empty and the document can be
  decoded.
\<close>
theorem GetMaxID_when:
  "(snd (pg_GetMaxID e rows) = None \<longleftrightarrow>
      failure (answer e) = None \<and> rows \<noteq> [] \<and> scan_err e 0 = None
      \<and> Max (ID ` set rows) \<noteq> 0)
   \<and> (snd (pg_GetMaxID e rows) = None \<longrightarrow> fst (pg_GetMaxID e rows) = Max (ID ` set rows))
   \<and> (snd (mongo_GetMaxID e rows) = None \<longleftrightarrow>
      took (answer e) < 10 * Second \<and> failure (answer e) = None \<and> rows \<noteq> []
      \<and> decode_err e 0 = None)
   \<and> (snd (mongo_GetMaxID e rows) = None \<longrightarrow>
        fst (mongo_GetMaxID e rows) = Max (ID ` set rows))"
proof -
  have pg: "snd (pg_GetMaxID e rows) = None \<longleftrightarrow>
      failure (answer e) = None \<and> rows \<noteq> [] \<and> scan_err e 0 = None
      \<and> Max (ID ` set rows) \<noteq> 0"
  proof (cases "most_recent rows")
    case None
    then have "rows = []" by (simp add: most_recent_None)
    then show ?thesis
      by (simp add: pg_GetMaxID_def pg_round_trip most_recent_def split: option.splits)
  next
    case (Some r)
    then have "rows \<noteq> []" and "ID r = Max (ID ` set rows)"
      using most_recent_None [of rows] most_recent_Max [of rows r] by simp_all
    with Some show ?thesis
      by (simp add: pg_GetMaxID_def pg_round_trip split: option.splits)
  qed
  have pgv: "snd (pg_GetMaxID e rows) = None \<longrightarrow>
      fst (pg_GetMaxID e rows) = Max (ID ` set rows)"
    by (auto simp: pg_GetMaxID_def pg_round_trip Let_def
          dest: most_recent_Max split: option.splits if_splits)
  have mg: "snd (mongo_GetMaxID e rows) = None \<longleftrightarrow>
      took (answer e) < 10 * Second \<and> failure (answer e) = None \<and> rows \<noteq> []
      \<and> decode_err e 0 = None"
    by (auto simp: mongo_GetMaxID_def mongo_round_trip most_recent_None most_recent_Nil
          split: option.splits if_splits)
  have mgv: "snd (mongo_GetMaxID e rows) = None \<longrightarrow>
      fst (mongo_GetMaxID e rows) = Max (ID ` set rows)"
    by (auto simp: mongo_GetMaxID_def mongo_round_trip
          dest: most_recent_Max split: option.splits if_splits)
  from pg pgv mg mgv show ?thesis by blast
qed

text \<open>
  Claim C5, at a table of three rows with the largest identifier 9 and a server that
  answers: both methods return the maximum and no error.
\<close>
theorem GetMaxID_when_witness:
  "snd (pg_GetMaxID calm [someone 3 50, someone 9 1, someone 4 4]) = None
   \<and> fst (pg_GetMaxID calm [someone 3 50, someone 9 1, someone 4 4])
       = Max (ID ` set [someone 3 50, someone 9 1, someone 4 4])
   \<and> snd (mongo_GetMaxID calm [someone 3 50, someone 9 1, someone 4 4]) = None
   \<and> fst (mongo_GetMaxID calm [someone 3 50, someone 9 1, someone 4 4])
       = Max (ID ` set [someone 3 50, someone 9 1, someone 4 4])"
  using GetMaxID_when [of calm "[someone 3 50, someone 9 1, someone 4 4]"]
  by (simp add: calm_def on_time_def someone_def Second_def)

text \<open>
  Claim C5 as it is written fails: the table holds a row, the server answers and the value
  scans, and the PostgreSQL \<^verbatim>\<open>GetMaxID\<close> still returns an error, because the row's
  identifier is 0.
\<close>
theorem GetMaxID_fails_on_zero:
  "[someone 0 50] \<noteq> [] \<and> failure (answer calm) = None \<and> scan_err calm 0 = None
   \<and> pg_GetMaxID calm [someone 0 50] = (0, Some (NoExistingData None 0))"
  by (simp add: pg_GetMaxID_def pg_round_trip calm_def on_time_def someone_def most_recent_def)

text \<open>
  Claim C9. The PostgreSQL \<^verbatim>\<open>GetMaxID\<close> never returns \<^verbatim>\<open>(0, nil)\<close>. In a state where rows
  exist, the largest identifier is 0 and nothing fails, it returns the error for missing
  data, and the MongoDB \<^verbatim>\<open>GetMaxID\<close> returns \<^verbatim>\<open>(0, nil)\<close>.
\<close>
theorem GetMaxID_zero:
  assumes "rows \<noteq> []" and "Max (ID ` set rows) = 0"
    and "failure (answer e) = None" and "took (answer e) < 10 * Second"
    and "scan_err e 0 = None" and "decode_err e 0 = None"
  shows "pg_GetMaxID e' rows' \<noteq> (0, None)
     \<and> pg_GetMaxID e rows = (0, Some (NoExistingData None 0))
     \<and> mongo_GetMaxID e rows = (0, None)"
proof -
  obtain r where r: "most_recent rows = Some r"
    using assms(1) by (cases "most_recent rows") (simp_all add: most_recent_None)
  then have z: "ID r = 0" using most_recent_Max assms(2) by simp
  have a: "pg_GetMaxID e' rows' \<noteq> (0, None)"
    by (auto simp: pg_GetMaxID_def Let_def split: option.splits prod.splits)
  have b: "pg_GetMaxID e rows = (0, Some (NoExistingData None 0))"
    using assms r z by (simp add: pg_GetMaxID_def pg_round_trip)
  have c: "mongo_GetMaxID e rows = (0, None)"
    using assms r z by (simp add: mongo_GetMaxID_def mongo_round_trip)
  from a b c show ?thesis by simp
qed

text \<open>
  Claim C9, at a table whose only row has the identifier 0 and a server that answers.
\<close>
theorem GetMaxID_zero_witness:
  "[someone 0 20] \<noteq> [] \<and> Max (ID ` set [someone 0 20]) = 0
     \<and> pg_GetMaxID calm [someone 0 20] = (0, Some (NoExistingData None 0))
     \<and> mongo_GetMaxID calm [someone 0 20] = (0, None)"
  using GetMaxID_zero [of "[someone 0 20]" calm]
  by (simp add: calm_def on_time_def someone_def Second_def)

section \<open>Return values of the five operations\<close>



















section \<open>InsertRecord\<close>

text \<open>
  Claim C4, as the code has it. \<^verbatim>\<open>InsertRecord\<close> randomises the template, then gives it the
  identifier of one call of \<^verbatim>\<open>GetNew\<close>: the template afterwards is the randomised record
  with that identifier, and the generator is in the state one \<^verbatim>\<open>GetNew\<close> leaves it in.
  When the call returns true the store has gained exactly that record, at the end.
\<close>
theorem InsertRecord_steps:
  "data (snd (run p Insert d e w))
     = (fst (Randomise d (data w) (rnd w)))\<lparr>ID := fst (GetNew d (idgen w))\<rparr>
   \<and> idgen (snd (run p Insert d e w)) = snd (GetNew d (idgen w))
   \<and> rnd (snd (run p Insert d e w)) = snd (Randomise d (data w) (rnd w))
   \<and> (fst (run p Insert d e w) = Returned True \<longrightarrow>
        store (snd (run p Insert d e w)) = store w @ [data (snd (run p Insert d e w))])"
  by (cases p)
    (auto simp: pg_InsertRecord_def mongo_InsertRecord_def say_def Let_def
       split: prod.splits option.splits if_splits)

text \<open>
  Claim C4, at a table of one row and a generator that last issued 2: the call returns
  true, the generator has issued 3, and the table has gained the row with identifier 3.
\<close>
theorem InsertRecord_steps_witness:
  "fst (run Postgres Insert demo_deps calm (demo_world [someone 1 50])) = Returned True
   \<and> idgen (snd (run Postgres Insert demo_deps calm (demo_world [someone 1 50]))) = 3
   \<and> store (snd (run Postgres Insert demo_deps calm (demo_world [someone 1 50])))
       = [someone 1 50, \<lparr>ID = 3, age = 30, balance = 1 / 4, name = ''ann'', padding = []\<rparr>]"
  using InsertRecord_steps [of Postgres demo_deps calm "demo_world [someone 1 50]"]
  by (simp add: pg_InsertRecord_def pg_round_trip demo_deps_def calm_def on_time_def
        demo_world_def someone_def Let_def)

text \<open>
  Claim C4 as it is written fails: when the server refuses the connection the call returns
  false and no document has been persisted.
\<close>
theorem InsertRecord_persists_nothing_on_error:
  "fst (run Mongo Insert demo_deps
          (calm\<lparr>answer := \<lparr>took = 0, failure = Some (Backend ''connection refused'')\<rparr>\<rparr>)
          (demo_world [someone 1 50])) = Returned False
   \<and> store (snd (run Mongo Insert demo_deps
          (calm\<lparr>answer := \<lparr>took = 0, failure = Some (Backend ''connection refused'')\<rparr>\<rparr>)
          (demo_world [someone 1 50]))) = [someone 1 50]"
  by (simp add: mongo_InsertRecord_def mongo_round_trip say_def demo_deps_def calm_def
        demo_world_def Second_def)

section \<open>UpdateRecord\<close>

lemma set_balance_all_none: "with_id i rows = [] \<Longrightarrow> set_balance_all i v rows = rows"
  by (induction rows) (auto simp: with_id_def set_balance_all_def split: if_splits)

lemma set_balance_one_none: "with_id i rows = [] \<Longrightarrow> set_balance_one i v rows = rows"
  by (induction rows) (auto simp: with_id_def split: if_splits)

lemma length_set_balance_one: "length (set_balance_one i v rows) = length rows"
  by (induction rows) auto

lemma nth_set_balance_one:
  "k < length rows \<Longrightarrow>
     set_balance_one i v rows ! k = rows ! k
     \<or> (ID (rows ! k) = i \<and> set_balance_one i v rows ! k = (rows ! k)\<lparr>balance := v\<rparr>)"
proof (induction rows arbitrary: k)
  case Nil
  then show ?case by simp
next
  case (Cons r rs)
  then show ?case by (cases k) auto
qed

lemma length_set_balance_all: "length (set_balance_all i v rows) = length rows"
  by (simp add: set_balance_all_def)

lemma nth_set_balance_all:
  "k < length rows \<Longrightarrow>
     set_balance_all i v rows ! k = rows ! k
     \<or> (ID (rows ! k) = i \<and> set_balance_all i v rows ! k = (rows ! k)\<lparr>balance := v\<rparr>)"
  by (simp add: set_balance_all_def)

lemma set_balance_one_hit:
  "with_id i rows \<noteq> [] \<Longrightarrow> \<exists>r \<in> set (set_balance_one i v rows). ID r = i \<and> balance r = v"
  by (induction rows) (auto simp: with_id_def split: if_splits)

lemma set_balance_all_hit:
  "with_id i rows \<noteq> [] \<Longrightarrow> \<exists>r \<in> set (set_balance_all i v rows). ID r = i \<and> balance r = v"
  by (induction rows) (auto simp: with_id_def set_balance_all_def split: if_splits)

lemma pg_Update_store:
  "store (snd (pg_UpdateRecord d e w))
     = (if fst (pg_UpdateRecord d e w) = Returned True
        then set_balance_all (fst (GetExisting d (idgen w))) (fst (Float32 d (rnd w))) (store w)
        else store w)"
  "data (snd (pg_UpdateRecord d e w)) = data w"
  by (auto simp: pg_UpdateRecord_def say_def Let_def split: prod.splits option.splits)

lemma mongo_Update_store:
  "store (snd (mongo_UpdateRecord d e w))
     = (if fst (mongo_UpdateRecord d e w) = Returned True
        then set_balance_one (fst (GetExisting d (idgen w))) (fst (Float32 d (rnd w))) (store w)
        else store w)"
  "data (snd (mongo_UpdateRecord d e w)) = data w"
  by (auto simp: mongo_UpdateRecord_def say_def Let_def split: prod.splits option.splits)

text \<open>
  Claim C2, as the code has it. \<^verbatim>\<open>UpdateRecord\<close> always returns a boolean. The PostgreSQL
  method returns true exactly when the server reports no error for the statement, the
  MongoDB method exactly when the server answers within the 10 seconds and reports no
  error. Whether an entity has the sampled identifier plays no part: when none has it,
  the stored entities are left as they were, and the result is still decided by the
  error alone.
\<close>
theorem UpdateRecord_result:
  "fst (pg_UpdateRecord d e w) = Returned (failure (answer e) = None)
   \<and> fst (mongo_UpdateRecord d e w)
       = Returned (took (answer e) < 10 * Second \<and> failure (answer e) = None)
   \<and> (with_id (fst (GetExisting d (idgen w))) (store w) = [] \<longrightarrow>
        store (snd (pg_UpdateRecord d e w)) = store w
        \<and> store (snd (mongo_UpdateRecord d e w)) = store w)"
  by (auto simp: pg_UpdateRecord_def mongo_UpdateRecord_def pg_round_trip mongo_round_trip
        say_def Let_def set_balance_all_none set_balance_one_none
        split: prod.splits option.splits)

text \<open>
  Claim C2, at a table whose only row has identifier 1 while the identifier sampled is 2.
\<close>
theorem UpdateRecord_result_witness:
  "with_id (fst (GetExisting demo_deps (idgen (demo_world [someone 1 50]))))
      (store (demo_world [someone 1 50])) = []
   \<and> fst (pg_UpdateRecord demo_deps calm (demo_world [someone 1 50])) = Returned True
   \<and> store (snd (pg_UpdateRecord demo_deps calm (demo_world [someone 1 50]))) = [someone 1 50]
   \<and> store (snd (mongo_UpdateRecord demo_deps calm (demo_world [someone 1 50])))
       = [someone 1 50]"
  using UpdateRecord_result [of demo_deps calm "demo_world [someone 1 50]"]
  by (simp add: demo_deps_def calm_def on_time_def demo_world_def someone_def with_id_def)

text \<open>
  Claim C2 as it is written fails: on an empty store no entity has the sampled
  identifier, the server reports no error, and both methods return true.
\<close>
theorem UpdateRecord_true_without_match:
  "with_id (fst (GetExisting demo_deps (idgen (demo_world [])))) (store (demo_world [])) = []
   \<and> fst (pg_UpdateRecord demo_deps calm (demo_world [])) = Returned True
   \<and> fst (mongo_UpdateRecord demo_deps calm (demo_world [])) = Returned True"
  by (simp add: pg_UpdateRecord_def mongo_UpdateRecord_def pg_round_trip mongo_round_trip
        demo_deps_def calm_def on_time_def demo_world_def with_id_def Second_def)

text \<open>
  Claim C8. \<^verbatim>\<open>UpdateRecord\<close> leaves the template alone and keeps the number of stored
  entities. Every stored entity is either as it was, or it has the sampled identifier and
  differs from what it was in the balance only, which is the value drawn from the random
  source. When the call returns true and an entity has the sampled identifier, an entity
  with that identifier has the drawn balance afterwards.
\<close>
theorem UpdateRecord_frame:
  "data (snd (run p Update d e w)) = data w
   \<and> length (store (snd (run p Update d e w))) = length (store w)
   \<and> (\<forall>k < length (store w).
        store (snd (run p Update d e w)) ! k = store w ! k
        \<or> (ID (store w ! k) = fst (GetExisting d (idgen w))
            \<and> store (snd (run p Update d e w)) ! k
                = (store w ! k)\<lparr>balance := fst (Float32 d (rnd w))\<rparr>))
   \<and> (fst (run p Update d e w) = Returned True
        \<and> with_id (fst (GetExisting d (idgen w))) (store w) \<noteq> [] \<longrightarrow>
        (\<exists>r \<in> set (store (snd (run p Update d e w))).
           ID r = fst (GetExisting d (idgen w)) \<and> balance r = fst (Float32 d (rnd w))))"
proof (cases p)
  case Postgres
  show ?thesis
    unfolding Postgres run.simps pg_Update_store
    using nth_set_balance_all set_balance_all_hit
    by (simp add: length_set_balance_all)
next
  case Mongo
  show ?thesis
    unfolding Mongo run.simps mongo_Update_store
    using nth_set_balance_one set_balance_one_hit
    by (simp add: length_set_balance_one)
qed

text \<open>
  Claim C8, at a collection of two documents where the identifier sampled is 2: the
  document with identifier 2 gets the drawn balance and the other one is untouched.
\<close>
theorem UpdateRecord_frame_witness:
  "fst (run Mongo Update demo_deps calm (demo_world [someone 1 50, someone 2 60])) = Returned True
   \<and> with_id (fst (GetExisting demo_deps (idgen (demo_world [someone 1 50, someone 2 60]))))
        (store (demo_world [someone 1 50, someone 2 60])) \<noteq> []
   \<and> store (snd (run Mongo Update demo_deps calm (demo_world [someone 1 50, someone 2 60])))
       = [someone 1 50, (someone 2 60)\<lparr>balance := 3 / 4\<rparr>]"
  using UpdateRecord_frame [of Mongo demo_deps calm "demo_world [someone 1 50, someone 2 60]"]
  by (simp add: mongo_UpdateRecord_def mongo_round_trip demo_deps_def calm_def on_time_def
        demo_world_def someone_def with_id_def Second_def)

section \<open>Timeouts\<close>

lemma mongo_cursor_loop_expires:
  "j < length rs \<Longrightarrow> 10 * Second \<le> el + (\<Sum>n = i..i + j. took (next_row e n)) \<Longrightarrow>
     fst (mongo_cursor_loop e el i rs) = False"
proof (induction rs arbitrary: el i j)
  case Nil
  then show ?case by simp
next
  case (Cons r rs)
  show ?case
  proof (cases j)
    case 0
    with Cons.prems show ?thesis by (simp add: mongo_round_trip)
  next
    case (Suc j')
    have split: "(\<Sum>n = i..i + j. took (next_row e n))
        = took (next_row e i) + (\<Sum>n = Suc i..Suc i + j'. took (next_row e n))"
      using Suc by (simp add: sum.atLeast_Suc_atMost)
    have "fst (mongo_cursor_loop e (el + took (next_row e i)) (Suc i) rs) = False"
      using Cons.IH [of j' "el + took (next_row e i)" "Suc i"] Cons.prems Suc split
      by (simp add: add.assoc)
    then show ?thesis
      by (simp add: mongo_round_trip split: option.splits)
  qed
qed

lemma pg_rows_loop_took:
  "pg_rows_loop (e\<lparr>answer := a, next_row := (\<lambda>i. (next_row e i)\<lparr>took := t' i\<rparr>)\<rparr>) i rs
     = pg_rows_loop e i rs"
  by (induction rs arbitrary: i) (auto simp: pg_round_trip split: option.splits)

text \<open>
  Claim C3, as the code has it. Every operation of the MongoDB provider runs under a
  context that expires after 10 seconds: a call whose answer takes that long returns false,
  and so does a \<^verbatim>\<open>ReadRange\<close> in which fetching one of the selected documents passes the
  deadline. The PostgreSQL provider passes \<^verbatim>\<open>context.Background()\<close>, which has no
  deadline: the result of its operations does not depend on how long the server takes.
\<close>
theorem timeouts:
  "Deadline (ctx_of Mongo) = Some (10 * Second)
   \<and> (10 * Second \<le> took (answer e) \<longrightarrow> fst (run Mongo k d e w) = Returned False)
   \<and> (j < length (age_range (store w))
        \<and> 10 * Second \<le> took (answer e) + (\<Sum>n = 0..j. took (next_row e n)) \<longrightarrow>
        fst (run Mongo Range d e w) = Returned False)
   \<and> Deadline (ctx_of Postgres) = None
   \<and> run Postgres k d
        (e\<lparr>answer := (answer e)\<lparr>took := t\<rparr>,
           next_row := (\<lambda>i. (next_row e i)\<lparr>took := t' i\<rparr>)\<rparr>) w
       = run Postgres k d e w"
proof -
  have a: "Deadline (ctx_of Mongo) = Some (10 * Second)"
    by (simp add: mongo_ctx_def)
  have b: "fst (run Mongo k d e w) = Returned False" if "10 * Second \<le> took (answer e)"
    using that
    by (cases k)
      (simp_all add: mongo_InsertRecord_def mongo_UpdateRecord_def mongo_ReadRecord_def
        mongo_ReadRange_def mongo_ReadRange_rows_def mongo_ReadMostRecentRecord_def
        mongo_round_trip Let_def split: prod.splits)
  have c: "fst (run Mongo Range d e w) = Returned False"
    if "j < length (age_range (store w))"
      and "10 * Second \<le> took (answer e) + (\<Sum>n = 0..j. took (next_row e n))"
  proof -
    have "fst (mongo_cursor_loop e (took (answer e)) 0 (age_range (store w))) = False"
      using mongo_cursor_loop_expires
          [where j = j and rs = "age_range (store w)" and el = "took (answer e)" and i = 0
             and e = e] that
      by simp
    then show ?thesis
      by (auto simp: mongo_ReadRange_def mongo_ReadRange_rows_def
            split: prod.splits option.splits)
  qed
  have d: "Deadline (ctx_of Postgres) = None"
    by (simp add: pg_ctx_def)
  have f: "run Postgres k d
        (e\<lparr>answer := (answer e)\<lparr>took := t\<rparr>,
           next_row := (\<lambda>i. (next_row e i)\<lparr>took := t' i\<rparr>)\<rparr>) w
       = run Postgres k d e w"
    by (cases k)
      (auto simp: pg_InsertRecord_def pg_UpdateRecord_def pg_ReadRecord_def
        pg_ReadRange_def pg_ReadRange_rows_def pg_ReadMostRecentRecord_def
        pg_round_trip pg_rows_loop_took Let_def
        split: prod.splits option.splits list.splits)
  from a b c d f show ?thesis by blast
qed

text \<open>
  Claim C3, at a MongoDB server that answers after 11 seconds, and at one that needs 10
  seconds to deliver the first document of a range: both calls return false.
\<close>
theorem timeouts_witness:
  "10 * Second \<le> took (answer (calm\<lparr>answer := \<lparr>took = 11 * Second, failure = None\<rparr>\<rparr>))
   \<and> fst (run Mongo MostRecent demo_deps
            (calm\<lparr>answer := \<lparr>took = 11 * Second, failure = None\<rparr>\<rparr>)
            (demo_world [someone 1 50])) = Returned False
   \<and> (0::nat) < length (age_range (store (demo_world [someone 1 50])))
   \<and> fst (run Mongo Range demo_deps
            (calm\<lparr>next_row := (\<lambda>i. \<lparr>took = 10 * Second, failure = None\<rparr>)\<rparr>)
            (demo_world [someone 1 50])) = Returned False"
  using timeouts [of "calm\<lparr>answer := \<lparr>took = 11 * Second, failure = None\<rparr>\<rparr>" MostRecent
      demo_deps "demo_world [someone 1 50]"]
    timeouts [of "calm\<lparr>next_row := (\<lambda>i. \<lparr>took = 10 * Second, failure = None\<rparr>)\<rparr>" Range
      demo_deps "demo_world [someone 1 50]" 0]
  by (simp add: calm_def on_time_def demo_world_def someone_def age_range_def Second_def)

text \<open>
  Claim C3 as it is written fails: the context of the PostgreSQL provider has no deadline,
  and a call whose answer takes an hour is not timed out; it returns true.
\<close>
theorem pg_has_no_timeout:
  "Deadline (ctx_of Postgres) = None
   \<and> fst (run Postgres MostRecent demo_deps
            (calm\<lparr>answer := \<lparr>took = 3600 * Second, failure = None\<rparr>\<rparr>)
            (demo_world [someone 1 50])) = Returned True"
  by (simp add: pg_ctx_def pg_ReadMostRecentRecord_def round_trip_def calm_def demo_world_def
        most_recent_def)

section \<open>ReadRange\<close>

text \<open>
  When the loop of the MongoDB \<^verbatim>\<open>ReadRange\<close> ends with true, every selected document was
  decoded. The loop of the PostgreSQL \<^verbatim>\<open>ReadRange\<close> gives as much only when every row
  could be fetched.
\<close>
lemma mongo_cursor_loop_True:
  "mongo_cursor_loop e el i rs = (True, n, ls) \<Longrightarrow>
     n = i + length rs \<and> (\<forall>j < length rs. decode_err e (i + j) = None)"
proof (induction rs arbitrary: el i)
  case Nil
  then show ?case by (auto split: option.splits)
next
  case (Cons r rs)
  from Cons.prems have d: "decode_err e i = None"
    and rest: "mongo_cursor_loop e (el + took (next_row e i)) (Suc i) rs = (True, n, ls)"
    by (auto split: option.splits)
  from Cons.IH [OF rest] d show ?case
    by (auto simp: less_Suc_eq_0_disj)
qed

lemma pg_rows_loop_True:
  "\<forall>j < length rs. failure (next_row e (i + j)) = None \<Longrightarrow>
   pg_rows_loop e i rs = (True, n, ls) \<Longrightarrow>
     n = i + length rs
     \<and> (\<forall>j < length rs. scan_err e (i + j) = None \<and> decode_err e (i + j) = None)"
proof (induction rs arbitrary: i)
  case Nil
  then show ?case by simp
next
  case (Cons r rs)
  from Cons.prems(1) have f0: "failure (next_row e i) = None"
    and fs: "\<forall>j < length rs. failure (next_row e (Suc i + j)) = None"
    by force+
  from Cons.prems(2) f0 have d: "scan_err e i = None" "decode_err e i = None"
    and rest: "pg_rows_loop e (Suc i) rs = (True, n, ls)"
    by (auto simp: pg_round_trip split: option.splits)
  from Cons.IH [OF fs rest] d show ?case
    by (auto simp: less_Suc_eq_0_disj)
qed

text \<open>
  A row that cannot be decoded makes the MongoDB loop return false. It makes the
  PostgreSQL loop return false, for a \<^verbatim>\<open>Scan\<close> error as well, when the rows up to it
  could be fetched.
\<close>
lemma mongo_cursor_loop_decode_error:
  "j < length rs \<Longrightarrow> decode_err e (i + j) \<noteq> None \<Longrightarrow>
     fst (mongo_cursor_loop e el i rs) = False"
proof (induction rs arbitrary: el i j)
  case Nil
  then show ?case by simp
next
  case (Cons r rs)
  show ?case
  proof (cases j)
    case 0
    with Cons.prems show ?thesis by (auto split: option.splits)
  next
    case (Suc j')
    with Cons.prems have "fst (mongo_cursor_loop e (el + took (next_row e i)) (Suc i) rs) = False"
      using Cons.IH [of j' "Suc i" "el + took (next_row e i)"] by simp
    then show ?thesis by (simp split: option.splits)
  qed
qed

lemma pg_rows_loop_decode_error:
  "j < length rs \<Longrightarrow> \<forall>k \<le> j. failure (next_row e (i + k)) = None \<Longrightarrow>
   scan_err e (i + j) \<noteq> None \<or> decode_err e (i + j) \<noteq> None \<Longrightarrow>
     fst (pg_rows_loop e i rs) = False"
proof (induction rs arbitrary: i j)
  case Nil
  then show ?case by simp
next
  case (Cons r rs)
  from Cons.prems(2) have f0: "failure (next_row e i) = None" by force
  show ?case
  proof (cases j)
    case 0
    with Cons.prems f0 show ?thesis by (auto simp: pg_round_trip split: option.splits)
  next
    case (Suc j')
    from Cons.prems(2) Suc have "\<forall>k \<le> j'. failure (next_row e (Suc i + k)) = None"
      by (metis Suc_le_mono add_Suc_shift)
    with Cons.prems Suc have "fst (pg_rows_loop e (Suc i) rs) = False"
      using Cons.IH [of j' "Suc i"] by simp
    with f0 show ?thesis by (simp add: pg_round_trip split: option.splits)
  qed
qed

text \<open>
  An empty result set is a success with no row processed, on both providers, when the
  query is answered (in time, for MongoDB) and the cursor reports its end.
\<close>
lemma ReadRange_empty_result:
  assumes "age_range (store w) = []" and "failure (answer e) = None"
  shows "pg_ReadRange_rows e w = (True, 0, [])"
    and "took (answer e) + took (next_row e 0) < 10 * Second \<Longrightarrow> 0 \<le> took (next_row e 0) \<Longrightarrow>
           failure (next_row e 0) = None \<Longrightarrow> mongo_ReadRange_rows e w = (True, 0, [])"
  using assms
  by (simp_all add: pg_ReadRange_rows_def mongo_ReadRange_rows_def pg_round_trip mongo_round_trip)

text \<open>
  Claim C7, where the code departs from it. The table holds three rows and the query
  selects the two whose age lies strictly between 45 and 75. The connection breaks when
  the second row is fetched: \<^verbatim>\<open>rows.Next()\<close> returns false, the PostgreSQL \<^verbatim>\<open>ReadRange\<close>
  has deserialised one of the two rows, logs nothing and returns true. The MongoDB
  \<^verbatim>\<open>ReadRange\<close> reads \<^verbatim>\<open>cursor.Err()\<close> after its loop and returns false in the same
  situation.
\<close>
theorem pg_ReadRange_true_on_broken_stream:
  "age_range [someone 1 50, someone 2 60, someone 3 10] = [someone 1 50, someone 2 60]
   \<and> pg_ReadRange_rows
        (calm\<lparr>next_row :=
           (\<lambda>i. if i = 1 then \<lparr>took = 0, failure = Some (Backend ''connection reset'')\<rparr>
                else on_time)\<rparr>)
        (demo_world [someone 1 50, someone 2 60, someone 3 10]) = (True, 1, [])
   \<and> run Postgres Range demo_deps
        (calm\<lparr>next_row :=
           (\<lambda>i. if i = 1 then \<lparr>took = 0, failure = Some (Backend ''connection reset'')\<rparr>
                else on_time)\<rparr>)
        (demo_world [someone 1 50, someone 2 60, someone 3 10])
       = (Returned True, demo_world [someone 1 50, someone 2 60, someone 3 10])
   \<and> fst (run Mongo Range demo_deps
        (calm\<lparr>next_row :=
           (\<lambda>i. if i = 1 then \<lparr>took = 0, failure = Some (Backend ''connection reset'')\<rparr>
                else on_time)\<rparr>)
        (demo_world [someone 1 50, someone 2 60, someone 3 10])) = Returned False"
  by (simp add: pg_ReadRange_def pg_ReadRange_rows_def mongo_ReadRange_def
       mongo_ReadRange_rows_def pg_round_trip mongo_round_trip age_range_def calm_def
       on_time_def demo_world_def someone_def Second_def)

section \<open>The factories\<close>

lemmas options_defs =
  mongo_options_def TrimPrefix_def Get_def Del_def Encode_def ascii_lower_def ascii_lower_byte_def
  char_of_def read_concern_of_def write_concern_of_def journal_of_def fsync_of_def demo_url_def

text \<open>
  Claim C6. Each factory returns one of two things. Either a provider and no error: then
  the configuration was accepted, the connection was made, the ping succeeded, and the
  provider holds that connection and the table (collection) name it was given. Or no
  provider and an error: the error of the step that failed, be it the parsing of the
  options, the connection or the ping.
\<close>
theorem NewProvider_all_or_nothing:
  "((\<exists>p cfg. pg_NewProvider drv endpoint t = (Some p, None)
        \<and> ParseConfig drv endpoint = Inr cfg \<and> ConnectConfig drv cfg = Inr (DB p)
        \<and> Ping drv (DB p) = None \<and> TableName p = t)
    \<or> (\<exists>err. pg_NewProvider drv endpoint t = (None, Some err)
        \<and> (ParseConfig drv endpoint = Inl err
           \<or> (\<exists>cfg. ParseConfig drv endpoint = Inr cfg
                \<and> (ConnectConfig drv cfg = Inl err
                   \<or> (\<exists>pool. ConnectConfig drv cfg = Inr pool \<and> Ping drv pool = Some err))))))
   \<and> ((\<exists>p db opts note. mongo_NewProvider ToLower mdrv endpoint t = (Some p, None, note)
        \<and> mongo_options ToLower endpoint = Inr (db, opts, note)
        \<and> Connect mdrv opts = Inr (Client p) \<and> PingClient mdrv (Client p) = None
        \<and> Collection p = \<lparr>of_client = Client p, database = db, collname = t\<rparr>)
    \<or> (\<exists>err note. mongo_NewProvider ToLower mdrv endpoint t = (None, Some err, note)
        \<and> (mongo_options ToLower endpoint = Inl err
           \<or> (\<exists>db opts. mongo_options ToLower endpoint = Inr (db, opts, note)
                \<and> (Connect mdrv opts = Inl err
                   \<or> (\<exists>c. Connect mdrv opts = Inr c \<and> PingClient mdrv c = Some err))))))"
proof -
  have pg: "(\<exists>p cfg. pg_NewProvider drv endpoint t = (Some p, None)
        \<and> ParseConfig drv endpoint = Inr cfg \<and> ConnectConfig drv cfg = Inr (DB p)
        \<and> Ping drv (DB p) = None \<and> TableName p = t)
    \<or> (\<exists>err. pg_NewProvider drv endpoint t = (None, Some err)
        \<and> (ParseConfig drv endpoint = Inl err
           \<or> (\<exists>cfg. ParseConfig drv endpoint = Inr cfg
                \<and> (ConnectConfig drv cfg = Inl err
                   \<or> (\<exists>pool. ConnectConfig drv cfg = Inr pool \<and> Ping drv pool = Some err)))))"
    by (auto simp: pg_NewProvider_def split: sum.splits option.splits)
  have mg: "(\<exists>p db opts note. mongo_NewProvider ToLower mdrv endpoint t = (Some p, None, note)
        \<and> mongo_options ToLower endpoint = Inr (db, opts, note)
        \<and> Connect mdrv opts = Inr (Client p) \<and> PingClient mdrv (Client p) = None
        \<and> Collection p = \<lparr>of_client = Client p, database = db, collname = t\<rparr>)
    \<or> (\<exists>err note. mongo_NewProvider ToLower mdrv endpoint t = (None, Some err, note)
        \<and> (mongo_options ToLower endpoint = Inl err
           \<or> (\<exists>db opts. mongo_options ToLower endpoint = Inr (db, opts, note)
                \<and> (Connect mdrv opts = Inl err
                   \<or> (\<exists>c. Connect mdrv opts = Inr c \<and> PingClient mdrv c = Some err)))))"
    by (auto simp: mongo_NewProvider_def split: sum.splits option.splits prod.splits)
  from pg mg show ?thesis by blast
qed

text \<open>
  Claim C6, at a PostgreSQL driver that accepts everything, and at a MongoDB driver that
  connects and whose ping fails: the first factory returns the provider, the second
  returns no provider and the error of the ping.
\<close>
theorem NewProvider_all_or_nothing_witness:
  "pg_NewProvider demo_pgxpool (demo_url []) ''people''
     = (Some \<lparr>DB = 7, TableName = ''people''\<rparr>, None)
   \<and> fst (snd (mongo_NewProvider ascii_lower
        (demo_mongo\<lparr>PingClient := (\<lambda>c. Some (Backend ''server selection timeout''))\<rparr>)
        (demo_url []) ''people'')) = Some (Backend ''server selection timeout'')
   \<and> fst (mongo_NewProvider ascii_lower
        (demo_mongo\<lparr>PingClient := (\<lambda>c. Some (Backend ''server selection timeout''))\<rparr>)
        (demo_url []) ''people'') = None"
  using NewProvider_all_or_nothing
    [where drv = demo_pgxpool and endpoint = "demo_url []" and t = "''people''"
       and ToLower = ascii_lower
       and mdrv = "demo_mongo\<lparr>PingClient :=
                     (\<lambda>c. Some (Backend ''server selection timeout''))\<rparr>"]
  by (simp add: demo_pgxpool_def demo_mongo_def pg_NewProvider_def mongo_NewProvider_def
        options_defs Let_def)

section \<open>Validation of the MongoDB endpoint\<close>














text \<open>
  The comparison is made on the lower-cased value: an endpoint with
  \<^verbatim>\<open>readConcern=MAJORITY\<close> gets a provider and no error.
\<close>
lemma upper_case_value_accepted:
  "Get (RawQuery (demo_url [(''readConcern'', ''MAJORITY'')])) ''readConcern'' = ''MAJORITY''
   \<and> ascii_lower ''MAJORITY'' = ''majority''
   \<and> fst (snd (mongo_NewProvider ascii_lower demo_mongo
        (demo_url [(''readConcern'', ''MAJORITY'')]) ''people'')) = None
   \<and> fst (mongo_NewProvider ascii_lower demo_mongo
        (demo_url [(''readConcern'', ''MAJORITY'')]) ''people'') \<noteq> None"
  by (simp add: mongo_NewProvider_def demo_mongo_def options_defs Let_def)

text \<open>
  The options built from a query with upper-case values, a driver option and an
  application name: the recognised parameters are gone, the others are kept, sorted by key.
\<close>
lemma mongo_options_example:
  "mongo_options ascii_lower (demo_url [(''readConcern'', ''Local''), (''w'', ''1''), (''journal'', ''1''),
      (''appName'', ''bench'')])
   = Inr (''testdb'',
          \<lparr>uri = demo_url [(''appName'', ''bench''), (''w'', ''1'')],
           WriteConcern = \<lparr>level = WMajority, journal = True\<rparr>,
           ReadConcern = RC_Local\<rparr>,
          [])"
  by (simp add: options_defs Let_def)

end
